theory Spec2Isabelle
  imports Main "HOL-Library.AList" "HOL-Library.Sublist"
begin

section \<open>Job Portal API: the request handlers of main.py over a document store\<close>

text \<open>
  The handlers of \<^verbatim>\<open>src/main.py\<close> are embedded as functions over an explicit
  database value. A Python dict is an association list, a raised exception is the
  \<open>Inl\<close> of a sum, the module-level \<^verbatim>\<open>db\<close> (a handle or \<^verbatim>\<open>None\<close>) is a
  \<open>database option\<close>, and a handler that writes returns the database it leaves.
\<close>

subsection \<open>Python values\<close>

text \<open>A naive \<^verbatim>\<open>datetime\<close>, as \<^verbatim>\<open>datetime.utcnow()\<close> and the driver produce.\<close>

record datetime =
  year :: nat
  month :: nat
  day :: nat
  hour :: nat
  minute :: nat
  second :: nat
  microsecond :: nat

text \<open>An \<^verbatim>\<open>ObjectId\<close>, held as its canonical text: 24 lower-case hexadecimal digits.\<close>

datatype objectid = Oid string

text \<open>The values a stored document holds, as the driver hands them to Python.\<close>

datatype bson =
    BNull
  | BBool bool
  | BInt int
  | BStr string
  | BDatetime datetime
  | BObjectId objectid
  | BArray "bson list"

type_synonym doc = "(string \<times> bson) list"

text \<open>
  Exceptions. \<open>HTTPException\<close> is a subclass of \<^verbatim>\<open>Exception\<close>, so an
  \<^verbatim>\<open>except Exception\<close> clause catches every constructor below.
\<close>

datatype exn =
    HTTPException nat string
  | InvalidId string
  | KeyError string
  | StorageError string

text \<open>
  The status of the response: the code of an \<open>HTTPException\<close>; any other exception
  that leaves a handler is answered by the framework with 500.
\<close>

fun status_code :: "exn \<Rightarrow> nat" where
  "status_code (HTTPException c d) = c"
| "status_code e = 500"

text \<open>
  What lies outside the source: the store's regular-expression engine on a pattern that
  has metacharacters, Python's \<^verbatim>\<open>repr\<close> of a list, the process environment and
  the clock.
\<close>

record world =
  regex_engine :: "string \<Rightarrow> string \<Rightarrow> string \<Rightarrow> bool"
  repr_list :: "bson list \<Rightarrow> string"
  getenv :: "string \<Rightarrow> string option"
  utcnow :: datetime

subsection \<open>Text\<close>

definition lower_char :: "char \<Rightarrow> char" where
  "lower_char c =
     (let n = (of_char c :: nat) in if 65 \<le> n \<and> n \<le> 90 then char_of (n + 32) else c)"

definition lower :: "string \<Rightarrow> string" where
  "lower s = map lower_char s"

definition is_hex :: "char \<Rightarrow> bool" where
  "is_hex c = (c \<in> set ''0123456789abcdefABCDEF'')"

definition digit_char :: "nat \<Rightarrow> char" where
  "digit_char d = ''0123456789abcdef'' ! (d mod 16)"

text \<open>
  \<open>digits b k n\<close>: the last \<open>k\<close> digits of \<open>n\<close> in base \<open>b\<close>; \<open>decimal n\<close>: \<^verbatim>\<open>str(n)\<close>;
  \<open>zpad k n\<close>: \<^verbatim>\<open>"%0kd" % n\<close>, padded with zeros to at least \<open>k\<close> digits.
\<close>

fun digits :: "nat \<Rightarrow> nat \<Rightarrow> nat \<Rightarrow> string" where
  "digits b 0 n = []"
| "digits b (Suc k) n = digits b k (n div b) @ [digit_char (n mod b)]"

function decimal :: "nat \<Rightarrow> string" where
  "decimal n = (if n < 10 then [digit_char n] else decimal (n div 10) @ [digit_char (n mod 10)])"
  by pat_completeness auto
termination
  by (relation "measure id") auto

definition zpad :: "nat \<Rightarrow> nat \<Rightarrow> string" where
  "zpad k n = (let s = decimal n in replicate (k - length s) CHR ''0'' @ s)"

text \<open>\<^verbatim>\<open>datetime.isoformat(sep)\<close> of a naive datetime.\<close>

definition isoformat_sep :: "char \<Rightarrow> datetime \<Rightarrow> string" where
  "isoformat_sep sep t =
     zpad 4 (year t) @ ''-'' @ zpad 2 (month t) @ ''-'' @ zpad 2 (day t) @ [sep]
     @ zpad 2 (hour t) @ '':'' @ zpad 2 (minute t) @ '':'' @ zpad 2 (second t)
     @ (if microsecond t = 0 then [] else ''.'' @ zpad 6 (microsecond t))"

definition isoformat :: "datetime \<Rightarrow> string" where
  "isoformat t = isoformat_sep CHR ''T'' t"

text \<open>Python's \<^verbatim>\<open>str(v)\<close>.\<close>

fun py_str :: "world \<Rightarrow> bson \<Rightarrow> string" where
  "py_str w BNull = ''None''"
| "py_str w (BBool b) = (if b then ''True'' else ''False'')"
| "py_str w (BInt i) = (if i < 0 then ''-'' @ decimal (nat (- i)) else decimal (nat i))"
| "py_str w (BStr s) = s"
| "py_str w (BDatetime t) = isoformat_sep CHR '' '' t"
| "py_str w (BObjectId (Oid h)) = h"
| "py_str w (BArray vs) = repr_list w vs"

text \<open>
  \<^verbatim>\<open>bson.ObjectId(s)\<close> on a \<^verbatim>\<open>str\<close>: a 24-character hexadecimal string is
  accepted, anything else raises \<^verbatim>\<open>InvalidId\<close>.
\<close>

definition ObjectId :: "string \<Rightarrow> exn + objectid" where
  "ObjectId s =
     (if length s = 24 \<and> list_all is_hex s then Inr (Oid (lower s)) else Inl (InvalidId s))"

subsection \<open>Queries of the document store\<close>

text \<open>
  The filter dicts that main.py builds: a field mapped to a value (equality), to
  \<^verbatim>\<open>{"$regex": p, "$options": o}\<close> or to \<^verbatim>\<open>{"$in": [...]}\<close>, and the key
  \<^verbatim>\<open>"$or"\<close> mapped to a list of such dicts.
\<close>

datatype cond =
    Eq bson
  | Regex string string
  | In "bson list"

type_synonym clause = "(string \<times> cond) list"

datatype qvalue =
    Cond cond
  | Or "clause list"

type_synonym query = "(string \<times> qvalue) list"

text \<open>The characters with a meaning of their own in a regular expression.\<close>

definition regex_meta :: "char \<Rightarrow> bool" where
  "regex_meta c = (c \<in> set [CHR ''.'', CHR ''^'', CHR ''$'', CHR ''*'', CHR ''+'', CHR ''?'',
     CHR ''('', CHR '')'', CHR ''['', CHR '']'', CHR ''{'', CHR ''}'', CHR ''|'', CHR 0x5C])"

text \<open>
  An unanchored search for a pattern of literal characters under option \<^verbatim>\<open>i\<close>: the
  pattern matches at the head of the text, letter case apart, or somewhere in its tail.
\<close>

fun match_here :: "string \<Rightarrow> string \<Rightarrow> bool" where
  "match_here [] s = True"
| "match_here (p # ps) [] = False"
| "match_here (p # ps) (c # cs) = (lower_char p = lower_char c \<and> match_here ps cs)"

fun search_i :: "string \<Rightarrow> string \<Rightarrow> bool" where
  "search_i p [] = match_here p []"
| "search_i p (c # cs) = (match_here p (c # cs) \<or> search_i p cs)"

definition regex_search :: "world \<Rightarrow> string \<Rightarrow> string \<Rightarrow> string \<Rightarrow> bool" where
  "regex_search w p opts s =
     (if opts = ''i'' \<and> \<not> list_ex regex_meta p then search_i p s
      else regex_engine w p opts s)"

text \<open>
  How the store matches one field of a document (\<open>None\<close>: the field is missing). A value
  matches an array field when it equals the array or one of its elements; a regular
  expression matches a string, or an array with a matching string element.
\<close>

definition eq_matches :: "bson \<Rightarrow> bson option \<Rightarrow> bool" where
  "eq_matches x v =
     (case v of
        None \<Rightarrow> x = BNull
      | Some (BArray vs) \<Rightarrow> x = BArray vs \<or> x \<in> set vs
      | Some y \<Rightarrow> y = x)"

definition regex_matches :: "world \<Rightarrow> string \<Rightarrow> string \<Rightarrow> bson \<Rightarrow> bool" where
  "regex_matches w p opts v = (case v of BStr s \<Rightarrow> regex_search w p opts s | _ \<Rightarrow> False)"

fun cond_matches :: "world \<Rightarrow> cond \<Rightarrow> bson option \<Rightarrow> bool" where
  "cond_matches w (Eq x) v = eq_matches x v"
| "cond_matches w (In xs) v = list_ex (\<lambda>x. eq_matches x v) xs"
| "cond_matches w (Regex p opts) v =
     (case v of
        Some (BArray vs) \<Rightarrow> list_ex (regex_matches w p opts) vs
      | Some y \<Rightarrow> regex_matches w p opts y
      | None \<Rightarrow> False)"

definition clause_matches :: "world \<Rightarrow> clause \<Rightarrow> doc \<Rightarrow> bool" where
  "clause_matches w cl d = list_all (\<lambda>(k, c). cond_matches w c (map_of d k)) cl"

fun qvalue_matches :: "world \<Rightarrow> string \<Rightarrow> qvalue \<Rightarrow> doc \<Rightarrow> bool" where
  "qvalue_matches w k (Cond c) d = cond_matches w c (map_of d k)"
| "qvalue_matches w k (Or cls) d = list_ex (\<lambda>cl. clause_matches w cl d) cls"

definition query_matches :: "world \<Rightarrow> query \<Rightarrow> doc \<Rightarrow> bool" where
  "query_matches w q d = list_all (\<lambda>(k, v). qvalue_matches w k v d) q"

subsection \<open>The schemas of schemas.py\<close>

record Company =
  name :: string
  website :: "string option"
  location :: "string option"
  logo_url :: "string option"
  description :: "string option"

record Job =
  title :: string
  company_id :: "string option"
  company_name :: string
  location :: string
  employment_type :: string
  salary_min :: "int option"
  salary_max :: "int option"
  description :: string
  requirements :: "string list"
  tags :: "string list"
  is_active :: bool
  posted_at :: "datetime option"

record Application =
  job_id :: string
  job_title :: string
  company_name :: string
  name :: string
  email :: string
  resume_url :: "string option"
  cover_letter :: "string option"
  status :: string

definition opt_str :: "string option \<Rightarrow> bson" where
  "opt_str x = (case x of None \<Rightarrow> BNull | Some s \<Rightarrow> BStr s)"

definition opt_int :: "int option \<Rightarrow> bson" where
  "opt_int x = (case x of None \<Rightarrow> BNull | Some i \<Rightarrow> BInt i)"

definition opt_datetime :: "datetime option \<Rightarrow> bson" where
  "opt_datetime x = (case x of None \<Rightarrow> BNull | Some t \<Rightarrow> BDatetime t)"

text \<open>\<^verbatim>\<open>model_dump()\<close>: the fields of a model as a dict, in declaration order.\<close>

definition Company_model_dump :: "Company \<Rightarrow> doc" where
  "Company_model_dump c =
     [(''name'', BStr (Company.name c)),
      (''website'', opt_str (website c)),
      (''location'', opt_str (Company.location c)),
      (''logo_url'', opt_str (logo_url c)),
      (''description'', opt_str (Company.description c))]"

definition Job_model_dump :: "Job \<Rightarrow> doc" where
  "Job_model_dump j =
     [(''title'', BStr (title j)),
      (''company_id'', opt_str (company_id j)),
      (''company_name'', BStr (Job.company_name j)),
      (''location'', BStr (Job.location j)),
      (''employment_type'', BStr (employment_type j)),
      (''salary_min'', opt_int (salary_min j)),
      (''salary_max'', opt_int (salary_max j)),
      (''description'', BStr (Job.description j)),
      (''requirements'', BArray (map BStr (requirements j))),
      (''tags'', BArray (map BStr (tags j))),
      (''is_active'', BBool (is_active j)),
      (''posted_at'', opt_datetime (posted_at j))]"

definition Application_model_dump :: "Application \<Rightarrow> doc" where
  "Application_model_dump a =
     [(''job_id'', BStr (job_id a)),
      (''job_title'', BStr (job_title a)),
      (''company_name'', BStr (Application.company_name a)),
      (''name'', BStr (Application.name a)),
      (''email'', BStr (email a)),
      (''resume_url'', opt_str (resume_url a)),
      (''cover_letter'', opt_str (cover_letter a)),
      (''status'', BStr (status a))]"

subsection \<open>The database\<close>

text \<open>
  A database handle: its name, its collections in creation order, the counter from which
  the store draws the next identifier, and \<open>fault\<close>: when it is \<open>Some m\<close> the store
  cannot be reached and every driver call raises an exception whose text is \<open>m\<close>.
\<close>

record database =
  db_name :: string
  collections :: "(string \<times> doc list) list"
  next_id :: nat
  fault :: "string option"

text \<open>\<^verbatim>\<open>db[c]\<close>: a collection that does not exist yet reads as empty.\<close>

definition coll :: "database \<Rightarrow> string \<Rightarrow> doc list" where
  "coll db c = (case map_of (collections db) c of None \<Rightarrow> [] | Some ds \<Rightarrow> ds)"

definition find_one :: "world \<Rightarrow> database \<Rightarrow> string \<Rightarrow> query \<Rightarrow> exn + doc option" where
  "find_one w db c q =
     (case fault db of
        Some m \<Rightarrow> Inl (StorageError m)
      | None \<Rightarrow> Inr (find (query_matches w q) (coll db c)))"

definition list_collection_names :: "database \<Rightarrow> string + string list" where
  "list_collection_names db =
     (case fault db of Some m \<Rightarrow> Inl m | None \<Rightarrow> Inr (map fst (collections db)))"

text \<open>
  Modelled from the spec: \<^verbatim>\<open>get_documents\<close> of database.py, which is not among the
  sources. "find(collection, predicate, limit): returns up to limit matching documents;
  ordering is storage-default (effectively insertion order). No documents found yields an
  empty sequence, not an error."
\<close>

definition get_documents :: "world \<Rightarrow> database \<Rightarrow> string \<Rightarrow> query \<Rightarrow> int \<Rightarrow> exn + doc list" where
  "get_documents w db c q limit =
     (case fault db of
        Some m \<Rightarrow> Inl (StorageError m)
      | None \<Rightarrow> Inr (take (nat limit) (filter (query_matches w q) (coll db c))))"

text \<open>
  Modelled from the spec: \<^verbatim>\<open>create_document\<close> of database.py, which is not among the
  sources. "insert(collection, document): stores a document, returns its assigned unique
  identifier as a string. Always succeeds unless the storage backend is unreachable."
  The store keeps the identifier it assigns under \<^verbatim>\<open>_id\<close>.
\<close>

definition create_document :: "database \<Rightarrow> string \<Rightarrow> doc \<Rightarrow> exn + (string \<times> database)" where
  "create_document db c data =
     (case fault db of
        Some m \<Rightarrow> Inl (StorageError m)
      | None \<Rightarrow>
          (let h = digits 16 24 (next_id db);
               stored = AList.update ''_id'' (BObjectId (Oid h)) data
           in Inr (h, db\<lparr>collections := AList.update c (coll db c @ [stored]) (collections db),
                         next_id := Suc (next_id db)\<rparr>)))"

subsection \<open>The handlers of main.py\<close>

datatype response =
    Items "doc list"
  | Id string
  | Document doc

definition not_configured :: exn where
  "not_configured = HTTPException 500 ''Database not configured''"

text \<open>Python's truth value of a string parameter that may be \<^verbatim>\<open>None\<close>, and of a value.\<close>

definition truthy :: "string option \<Rightarrow> bool" where
  "truthy x = (case x of None \<Rightarrow> False | Some s \<Rightarrow> s \<noteq> [])"

fun py_bool :: "bson \<Rightarrow> bool" where
  "py_bool BNull = False"
| "py_bool (BBool b) = b"
| "py_bool (BInt i) = (i \<noteq> 0)"
| "py_bool (BStr s) = (s \<noteq> [])"
| "py_bool (BDatetime t) = True"
| "py_bool (BObjectId i) = True"
| "py_bool (BArray vs) = (vs \<noteq> [])"

text \<open>\<^verbatim>\<open>d.get(k)\<close>: \<^verbatim>\<open>None\<close> for a missing key.\<close>

definition dict_get :: "doc \<Rightarrow> string \<Rightarrow> bson" where
  "dict_get d k = (case map_of d k of None \<Rightarrow> BNull | Some v \<Rightarrow> v)"

text \<open>
  Parameters that share a name with a schema field are written \<open>loc\<close> (\<^verbatim>\<open>location\<close>),
  \<open>jid\<close> (\<^verbatim>\<open>job_id\<close>) and \<open>app\<close> (\<^verbatim>\<open>apply\<close>).

  \<^verbatim>\<open>list_jobs\<close>, lines 33 to 44: the filter dict. Every assignment goes to a key of its
  own: \<^verbatim>\<open>is_active\<close>, \<^verbatim>\<open>location\<close>, \<^verbatim>\<open>tags\<close>, \<^verbatim>\<open>$or\<close>.
\<close>

definition q_clauses :: "string \<Rightarrow> clause list" where
  "q_clauses q =
     [[(''title'', Regex q ''i'')],
      [(''company_name'', Regex q ''i'')],
      [(''description'', Regex q ''i'')],
      [(''tags'', Regex q ''i'')]]"

definition filter_query :: "string option \<Rightarrow> string option \<Rightarrow> string option \<Rightarrow> query" where
  "filter_query q loc tag =
     (let f0 = [(''is_active'', Cond (Eq (BBool True)))];
          f1 = (if truthy loc
                then AList.update ''location'' (Cond (Regex (the loc) ''i'')) f0 else f0);
          f2 = (if truthy tag
                then AList.update ''tags'' (Cond (In [BStr (the tag)])) f1 else f1)
      in if truthy q then AList.update ''$or'' (Or (q_clauses (the q))) f2 else f2)"

text \<open>
  The loop bodies that prepare a document for the response. \<^verbatim>\<open>list_jobs\<close>, lines 49
  to 51; \<^verbatim>\<open>list_applications\<close>, line 113, and \<^verbatim>\<open>list_companies\<close>, line 131.
\<close>

definition convert_id :: "world \<Rightarrow> doc \<Rightarrow> doc" where
  "convert_id w a =
     AList.update ''_id''
       (case map_of a ''_id'' of Some v \<Rightarrow> BStr (py_str w v) | None \<Rightarrow> BNull) a"

definition convert_posted_at :: "doc \<Rightarrow> doc" where
  "convert_posted_at j =
     (case map_of j ''posted_at'' of
        Some (BDatetime t) \<Rightarrow> AList.update ''posted_at'' (BStr (isoformat t)) j
      | _ \<Rightarrow> j)"

definition convert_job :: "world \<Rightarrow> doc \<Rightarrow> doc" where
  "convert_job w j = convert_posted_at (convert_id w j)"

definition list_jobs ::
  "world \<Rightarrow> database option \<Rightarrow> string option \<Rightarrow> string option \<Rightarrow> string option \<Rightarrow> int
     \<Rightarrow> exn + response" where
  "list_jobs w db q loc tag limit =
     (case db of
        None \<Rightarrow> Inl not_configured
      | Some d \<Rightarrow>
          (case get_documents w d ''job'' (filter_query q loc tag) limit of
             Inl e \<Rightarrow> Inl e
           | Inr jobs \<Rightarrow> Inr (Items (map (convert_job w) jobs))))"

definition create_job ::
  "world \<Rightarrow> database option \<Rightarrow> Job \<Rightarrow> (exn + response) \<times> database option" where
  "create_job w db job =
     (case db of
        None \<Rightarrow> (Inl not_configured, db)
      | Some d \<Rightarrow>
          (let data0 = Job_model_dump job;
               data = (if \<not> py_bool (dict_get data0 ''posted_at'')
                       then AList.update ''posted_at'' (BDatetime (utcnow w)) data0 else data0)
           in case create_document d ''job'' data of
                Inl e \<Rightarrow> (Inl e, db)
              | Inr (i, d') \<Rightarrow> (Inr (Id i), Some d')))"

text \<open>
  \<^verbatim>\<open>get_job\<close>, lines 74 to 80: the body of the \<^verbatim>\<open>try\<close>. The \<open>HTTPException\<close> with
  status 404 is raised inside it.
\<close>

definition get_job_try :: "world \<Rightarrow> database \<Rightarrow> string \<Rightarrow> exn + doc" where
  "get_job_try w d jid =
     (case ObjectId jid of
        Inl e \<Rightarrow> Inl e
      | Inr oid \<Rightarrow>
          (case find_one w d ''job'' [(''_id'', Cond (Eq (BObjectId oid)))] of
             Inl e \<Rightarrow> Inl e
           | Inr None \<Rightarrow> Inl (HTTPException 404 ''Job not found'')
           | Inr (Some doc) \<Rightarrow>
               (if doc = [] then Inl (HTTPException 404 ''Job not found'')
                else case map_of doc ''_id'' of
                       None \<Rightarrow> Inl (KeyError ''_id'')
                     | Some v \<Rightarrow>
                         Inr (convert_posted_at (AList.update ''_id'' (BStr (py_str w v)) doc)))))"

text \<open>Lines 81 and 82: \<^verbatim>\<open>except Exception\<close> answers every exception of the body with 400.\<close>

definition get_job :: "world \<Rightarrow> database option \<Rightarrow> string \<Rightarrow> exn + response" where
  "get_job w db jid =
     (case db of
        None \<Rightarrow> Inl not_configured
      | Some d \<Rightarrow>
          (case get_job_try w d jid of
             Inl e \<Rightarrow> Inl (HTTPException 400 ''Invalid job id'')
           | Inr doc \<Rightarrow> Inr (Document doc)))"

text \<open>\<^verbatim>\<open>submit_application\<close>, lines 93 to 95: the body of the \<^verbatim>\<open>try\<close>.\<close>

definition submit_application_try :: "world \<Rightarrow> database \<Rightarrow> string \<Rightarrow> exn + unit" where
  "submit_application_try w d jid =
     (case ObjectId jid of
        Inl e \<Rightarrow> Inl e
      | Inr oid \<Rightarrow>
          (case find_one w d ''job'' [(''_id'', Cond (Eq (BObjectId oid)))] of
             Inl e \<Rightarrow> Inl e
           | Inr None \<Rightarrow> Inl (HTTPException 404 ''Job not found'')
           | Inr (Some job_obj) \<Rightarrow>
               (if job_obj = [] then Inl (HTTPException 404 ''Job not found'') else Inr ())))"

definition submit_application ::
  "world \<Rightarrow> database option \<Rightarrow> Application \<Rightarrow> (exn + response) \<times> database option" where
  "submit_application w db app =
     (case db of
        None \<Rightarrow> (Inl not_configured, db)
      | Some d \<Rightarrow>
          (case submit_application_try w d (job_id app) of
             Inl e \<Rightarrow> (Inl (HTTPException 400 ''Invalid job id''), db)
           | Inr u \<Rightarrow>
               (case create_document d ''application'' (Application_model_dump app) of
                  Inl e \<Rightarrow> (Inl e, db)
                | Inr (i, d') \<Rightarrow> (Inr (Id i), Some d'))))"

definition applications_filter :: "string option \<Rightarrow> query" where
  "applications_filter jid =
     (if truthy jid then AList.update ''job_id'' (Cond (Eq (BStr (the jid)))) [] else [])"

definition list_applications ::
  "world \<Rightarrow> database option \<Rightarrow> string option \<Rightarrow> int \<Rightarrow> exn + response" where
  "list_applications w db jid limit =
     (case db of
        None \<Rightarrow> Inl not_configured
      | Some d \<Rightarrow>
          (case get_documents w d ''application'' (applications_filter jid) limit of
             Inl e \<Rightarrow> Inl e
           | Inr apps \<Rightarrow> Inr (Items (map (convert_id w) apps))))"

definition create_company ::
  "world \<Rightarrow> database option \<Rightarrow> Company \<Rightarrow> (exn + response) \<times> database option" where
  "create_company w db company =
     (case db of
        None \<Rightarrow> (Inl not_configured, db)
      | Some d \<Rightarrow>
          (case create_document d ''company'' (Company_model_dump company) of
             Inl e \<Rightarrow> (Inl e, db)
           | Inr (i, d') \<Rightarrow> (Inr (Id i), Some d')))"

definition list_companies :: "world \<Rightarrow> database option \<Rightarrow> int \<Rightarrow> exn + response" where
  "list_companies w db limit =
     (case db of
        None \<Rightarrow> Inl not_configured
      | Some d \<Rightarrow>
          (case get_documents w d ''company'' [] limit of
             Inl e \<Rightarrow> Inl e
           | Inr comps \<Rightarrow> Inr (Items (map (convert_id w) comps))))"

subsection \<open>The diagnostic endpoint\<close>

text \<open>The three signs of the status texts, as their UTF-8 bytes.\<close>

definition check_mark :: string where
  "check_mark = [CHR 0xE2, CHR 0x9C, CHR 0x85]"

definition cross_mark :: string where
  "cross_mark = [CHR 0xE2, CHR 0x9D, CHR 0x8C]"

definition warning_sign :: string where
  "warning_sign = [CHR 0xE2, CHR 0x9A, CHR 0xA0, CHR 0xEF, CHR 0xB8, CHR 0x8F]"

definition env_set :: "world \<Rightarrow> string \<Rightarrow> bson" where
  "env_set w k =
     BStr (if truthy (getenv w k) then check_mark @ '' Set'' else cross_mark @ '' Not Set'')"

text \<open>
  \<^verbatim>\<open>test_database\<close>, lines 138 to 169. The inner \<^verbatim>\<open>try\<close> catches what the listing
  raises; no other statement of the outer \<^verbatim>\<open>try\<close> calls the store, and a driver
  handle has the attribute \<^verbatim>\<open>name\<close>. The handler has no \<^verbatim>\<open>raise\<close>, so its
  result is the response dict itself.
\<close>

definition test_database :: "world \<Rightarrow> database option \<Rightarrow> exn + doc" where
  "test_database w db =
     (let response =
            [(''backend'', BStr (check_mark @ '' Running'')),
             (''database'', BStr (cross_mark @ '' Not Available'')),
             (''database_url'', BNull),
             (''database_name'', BNull),
             (''connection_status'', BStr ''Not Connected''),
             (''collections'', BArray [])];
          r1 = (case db of
                  Some d \<Rightarrow>
                    (let a = AList.update ''database'' (BStr (check_mark @ '' Available'')) response;
                         b = AList.update ''database_url'' (BStr (check_mark @ '' Configured'')) a;
                         c = AList.update ''database_name'' (BStr (db_name d)) b;
                         e = AList.update ''connection_status'' (BStr ''Connected'') c
                     in case list_collection_names d of
                          Inr names \<Rightarrow>
                            AList.update ''database'' (BStr (check_mark @ '' Connected & Working''))
                              (AList.update ''collections'' (BArray (map BStr (take 10 names))) e)
                        | Inl m \<Rightarrow>
                            AList.update ''database''
                              (BStr (warning_sign @ ''  Connected but Error: '' @ take 50 m)) e)
                | None \<Rightarrow>
                    AList.update ''database''
                      (BStr (warning_sign @ ''  Available but not initialized'')) response);
          r2 = AList.update ''database_url'' (env_set w ''DATABASE_URL'') r1
      in Inr (AList.update ''database_name'' (env_set w ''DATABASE_NAME'') r2))"

subsection \<open>The words of the specification\<close>

text \<open>
  "Contains the string as a case-insensitive substring": the text, in lower case, is some
  prefix, then the string in lower case, then some suffix.
\<close>

definition contains_ci :: "string \<Rightarrow> string \<Rightarrow> bool" where
  "contains_ci q s = sublist (lower q) (lower s)"

text \<open>The field \<^verbatim>\<open>is_active\<close> holds a boolean, as the \<open>Job\<close> schema declares it.\<close>

definition is_active_bool :: "doc \<Rightarrow> bool" where
  "is_active_bool j = (case map_of j ''is_active'' of Some (BBool b) \<Rightarrow> True | _ \<Rightarrow> False)"

text \<open>
  A document carries an identifier; every stored document does, as the store assigns one
  on insert.
\<close>

definition has_id :: "doc \<Rightarrow> bool" where
  "has_id x = (map_of x ''_id'' \<noteq> None)"

definition ids_assigned :: "database \<Rightarrow> bool" where
  "ids_assigned d = list_all (\<lambda>(c, ds). list_all has_id ds) (collections d)"

text \<open>
  What the response promises of a document: \<^verbatim>\<open>_id\<close> holds a string, and
  \<^verbatim>\<open>posted_at\<close> does not hold a \<^verbatim>\<open>datetime\<close> object.
\<close>

definition id_is_str :: "doc \<Rightarrow> bool" where
  "id_is_str x = (case map_of x ''_id'' of Some (BStr s) \<Rightarrow> True | _ \<Rightarrow> False)"

definition posted_at_not_raw :: "doc \<Rightarrow> bool" where
  "posted_at_not_raw x = (case map_of x ''posted_at'' of Some (BDatetime t) \<Rightarrow> False | _ \<Rightarrow> True)"

subsection \<open>Example data\<close>

definition example_time :: datetime where
  "example_time =
     \<lparr>year = 2024, month = 5, day = 1, hour = 12, minute = 30, second = 0, microsecond = 0\<rparr>"

definition example_world :: world where
  "example_world =
     \<lparr>regex_engine = (\<lambda>p opts s. False), repr_list = (\<lambda>vs. ''[]''),
      getenv = [''DATABASE_URL'' \<mapsto> ''mongodb://localhost''], utcnow = example_time\<rparr>"

text \<open>An open job and a closed one, as \<open>create_job\<close> stores them, and an application.\<close>

definition job_engineer :: doc where
  "job_engineer =
     [(''title'', BStr ''Backend Engineer''),
      (''company_id'', BNull),
      (''company_name'', BStr ''Acme''),
      (''location'', BStr ''Berlin, Germany''),
      (''employment_type'', BStr ''full-time''),
      (''salary_min'', BNull),
      (''salary_max'', BInt 90000),
      (''description'', BStr ''Build and run services''),
      (''requirements'', BArray [BStr ''3 years'']),
      (''tags'', BArray [BStr ''python'', BStr ''Django'']),
      (''is_active'', BBool True),
      (''posted_at'', BDatetime example_time),
      (''_id'', BObjectId (Oid ''000000000000000000000001''))]"

definition job_closed :: doc where
  "job_closed =
     [(''title'', BStr ''Data Engineer''),
      (''company_id'', BNull),
      (''company_name'', BStr ''Initech''),
      (''location'', BStr ''Remote''),
      (''employment_type'', BStr ''contract''),
      (''salary_min'', BNull),
      (''salary_max'', BNull),
      (''description'', BStr ''Pipelines''),
      (''requirements'', BArray []),
      (''tags'', BArray [BStr ''python3'']),
      (''is_active'', BBool False),
      (''posted_at'', BDatetime example_time),
      (''_id'', BObjectId (Oid ''000000000000000000000002''))]"

definition application_ada :: doc where
  "application_ada =
     [(''job_id'', BStr ''000000000000000000000001''),
      (''job_title'', BStr ''Backend Engineer''),
      (''company_name'', BStr ''Acme''),
      (''name'', BStr ''Ada''),
      (''email'', BStr ''ada@example.org''),
      (''resume_url'', BNull),
      (''cover_letter'', BNull),
      (''status'', BStr ''submitted''),
      (''_id'', BObjectId (Oid ''000000000000000000000003''))]"

definition example_db :: database where
  "example_db =
     \<lparr>db_name = ''jobs'',
      collections = [(''job'', [job_engineer, job_closed]), (''application'', [application_ada])],
      next_id = 4, fault = None\<rparr>"

definition unreachable_db :: database where
  "unreachable_db = example_db\<lparr>fault := Some ''connection refused''\<rparr>"

text \<open>A form whose \<^verbatim>\<open>job_id\<close> is a well-formed identifier that no stored job has.\<close>

definition unassigned_id :: string where
  "unassigned_id = ''0000000000000000000000ff''"

definition form_unassigned :: Application where
  "form_unassigned =
     \<lparr>job_id = unassigned_id, job_title = ''Backend Engineer'', company_name = ''Acme'',
      name = ''Bob'', email = ''bob@example.org'', resume_url = None, cover_letter = None,
      status = ''submitted''\<rparr>"

text \<open>
  A job and an application that carry a timestamp field besides those of the schemas.
\<close>

definition stamped_job :: doc where
  "stamped_job = job_engineer @ [(''updated_at'', BDatetime example_time)]"

definition stamped_application :: doc where
  "stamped_application = application_ada @ [(''created_at'', BDatetime example_time)]"

definition stamped_db :: database where
  "stamped_db =
     \<lparr>db_name = ''jobs'',
      collections = [(''job'', [stamped_job]), (''application'', [stamped_application])],
      next_id = 4, fault = None\<rparr>"

lemmas example_defs =
  example_time_def example_world_def job_engineer_def job_closed_def application_ada_def
  example_db_def unreachable_db_def unassigned_id_def form_unassigned_def

lemmas store_defs =
  coll_def find_one_def get_documents_def list_collection_names_def query_matches_def
  clause_matches_def eq_matches_def regex_matches_def regex_search_def regex_meta_def

lemmas text_defs = ObjectId_def is_hex_def lower_def lower_char_def

section \<open>Properties\<close>

subsection \<open>Text search\<close>

lemma match_here_prefix: "match_here p s \<longleftrightarrow> prefix (lower p) (lower s)"
  by (induction p s rule: match_here.induct) (auto simp: lower_def)

lemma search_i_sublist: "search_i p s \<longleftrightarrow> sublist (lower p) (lower s)"
  by (induction s) (auto simp: match_here_prefix sublist_Cons_right lower_def)

subsection \<open>Job detail and application submission\<close>

lemma get_job_error_is_400:
  "get_job w (Some d) jid = Inl e \<Longrightarrow> e = HTTPException 400 ''Invalid job id''"
  by (auto simp: get_job_def split: sum.splits)

lemma submit_application_try_error_is_400:
  "submit_application_try w d (job_id app) = Inl e \<Longrightarrow>
   submit_application w (Some d) app = (Inl (HTTPException 400 ''Invalid job id''), Some d)"
  by (simp add: submit_application_def)

lemma submit_application_error_keeps_db:
  "fst (submit_application w db app) = Inl e \<Longrightarrow> snd (submit_application w db app) = db"
  by (auto simp: submit_application_def split: option.splits sum.splits prod.splits)

lemma ObjectId_malformed:
  "\<not> (length s = 24 \<and> list_all is_hex s) \<Longrightarrow> ObjectId s = Inl (InvalidId s)"
  by (simp add: ObjectId_def)

lemma get_job_malformed:
  "\<not> (length jid = 24 \<and> list_all is_hex jid) \<Longrightarrow>
   get_job w (Some d) jid = Inl (HTTPException 400 ''Invalid job id'')"
  by (auto simp: get_job_def get_job_try_def ObjectId_def)

lemma submit_application_malformed:
  "\<not> (length (job_id app) = 24 \<and> list_all is_hex (job_id app)) \<Longrightarrow>
   submit_application w (Some d) app = (Inl (HTTPException 400 ''Invalid job id''), Some d)"
  by (auto simp: submit_application_def submit_application_try_def ObjectId_def)

text \<open>
  C1. \<^verbatim>\<open>GET /jobs/{id}\<close> with an identifier that is well formed (the constructor
  accepts it) and that no stored job has (the lookup finds nothing): the 404 raised inside
  the \<^verbatim>\<open>try\<close> is caught by its \<^verbatim>\<open>except Exception\<close>, and the handler answers
  400 \<^verbatim>\<open>Invalid job id\<close>, the answer it gives to a malformed identifier.
\<close>

theorem get_job_unassigned_id_answers_400:
  "ObjectId unassigned_id = Inr (Oid unassigned_id)
   \<and> find_one example_world example_db ''job''
        [(''_id'', Cond (Eq (BObjectId (Oid unassigned_id))))] = Inr None
   \<and> get_job_try example_world example_db unassigned_id
        = Inl (HTTPException 404 ''Job not found'')
   \<and> get_job example_world (Some example_db) unassigned_id
        = Inl (HTTPException 400 ''Invalid job id'')"
  by (simp add: get_job_def get_job_try_def text_defs store_defs example_defs)

text \<open>
  C2. \<^verbatim>\<open>POST /applications\<close> with a \<^verbatim>\<open>job_id\<close> that is well formed and references no
  stored job: the 404 raised inside the \<^verbatim>\<open>try\<close> is caught by its
  \<^verbatim>\<open>except Exception\<close>, the handler answers 400 \<^verbatim>\<open>Invalid job id\<close>, and the
  database is left as it was.
\<close>

theorem submit_application_unassigned_id_answers_400:
  "submit_application_try example_world example_db (job_id form_unassigned)
     = Inl (HTTPException 404 ''Job not found'')
   \<and> submit_application example_world (Some example_db) form_unassigned
     = (Inl (HTTPException 400 ''Invalid job id''), Some example_db)"
  by (simp add: submit_application_def submit_application_try_def text_defs store_defs
      example_defs)

subsection \<open>An unconfigured database\<close>

text \<open>
  C9. Each of the seven data operations, called while \<^verbatim>\<open>db\<close> is \<^verbatim>\<open>None\<close>, raises
  the \<open>HTTPException\<close> with status 500 and the fixed detail
  \<^verbatim>\<open>Database not configured\<close>; the handlers that write leave \<^verbatim>\<open>db\<close> as it was.
\<close>

theorem unconfigured_fails_fast:
  "list_jobs w None q loc tag limit = Inl not_configured
   \<and> create_job w None job = (Inl not_configured, None)
   \<and> get_job w None jid = Inl not_configured
   \<and> submit_application w None app = (Inl not_configured, None)
   \<and> list_applications w None jid' limit = Inl not_configured
   \<and> create_company w None company = (Inl not_configured, None)
   \<and> list_companies w None limit = Inl not_configured
   \<and> not_configured = HTTPException 500 ''Database not configured''
   \<and> status_code not_configured = 500"
  by (simp add: list_jobs_def create_job_def get_job_def submit_application_def
      list_applications_def create_company_def list_companies_def not_configured_def)

subsection \<open>The diagnostic endpoint\<close>

text \<open>
  C8. \<^verbatim>\<open>GET /test\<close> returns its response dict (status 200) in every storage state:
  with no database configured, with a database whose collection listing succeeds, and
  with one whose listing raises. The fields describe the state: \<^verbatim>\<open>backend\<close>,
  \<^verbatim>\<open>database\<close>, \<^verbatim>\<open>connection_status\<close>, \<^verbatim>\<open>collections\<close> (at most ten names),
  and \<^verbatim>\<open>database_url\<close> and \<^verbatim>\<open>database_name\<close> from the environment.
\<close>

theorem test_database_ok:
  "\<exists>r. test_database w db = Inr r
     \<and> map_of r ''backend'' = Some (BStr (check_mark @ '' Running''))
     \<and> map_of r ''database_url'' = Some (env_set w ''DATABASE_URL'')
     \<and> map_of r ''database_name'' = Some (env_set w ''DATABASE_NAME'')
     \<and> (db = None \<longrightarrow>
          map_of r ''database'' = Some (BStr (warning_sign @ ''  Available but not initialized''))
          \<and> map_of r ''connection_status'' = Some (BStr ''Not Connected'')
          \<and> map_of r ''collections'' = Some (BArray []))
     \<and> (\<forall>d names. db = Some d \<longrightarrow> list_collection_names d = Inr names \<longrightarrow>
          map_of r ''database'' = Some (BStr (check_mark @ '' Connected & Working''))
          \<and> map_of r ''connection_status'' = Some (BStr ''Connected'')
          \<and> map_of r ''collections'' = Some (BArray (map BStr (take 10 names))))
     \<and> (\<forall>d m. db = Some d \<longrightarrow> list_collection_names d = Inl m \<longrightarrow>
          map_of r ''database''
            = Some (BStr (warning_sign @ ''  Connected but Error: '' @ take 50 m))
          \<and> map_of r ''connection_status'' = Some (BStr ''Connected'')
          \<and> map_of r ''collections'' = Some (BArray []))"
  by (cases db) (auto simp: test_database_def Let_def update_conv' split: sum.splits)

theorem test_database_ok_witness:
  "(\<exists>r. test_database example_world None = Inr r
        \<and> map_of r ''database''
            = Some (BStr (warning_sign @ ''  Available but not initialized'')))
   \<and> (\<exists>r. test_database example_world (Some example_db) = Inr r
        \<and> map_of r ''collections'' = Some (BArray [BStr ''job'', BStr ''application'']))
   \<and> (\<exists>r. test_database example_world (Some unreachable_db) = Inr r
        \<and> map_of r ''database''
            = Some (BStr (warning_sign @ ''  Connected but Error: connection refused'')))"
proof -
  have n: "list_collection_names example_db = Inr [''job'', ''application'']"
    by (simp add: list_collection_names_def example_db_def)
  have u: "list_collection_names unreachable_db = Inl ''connection refused''"
    by (simp add: list_collection_names_def unreachable_db_def example_db_def)
  have a: "\<exists>r. test_database example_world None = Inr r
        \<and> map_of r ''database''
            = Some (BStr (warning_sign @ ''  Available but not initialized''))"
    using test_database_ok [of example_world None] by blast
  have b: "\<exists>r. test_database example_world (Some example_db) = Inr r
        \<and> map_of r ''collections'' = Some (BArray [BStr ''job'', BStr ''application''])"
    using test_database_ok [of example_world "Some example_db"] n by fastforce
  have c: "\<exists>r. test_database example_world (Some unreachable_db) = Inr r
        \<and> map_of r ''database''
            = Some (BStr (warning_sign @ ''  Connected but Error: connection refused''))"
    using test_database_ok [of example_world "Some unreachable_db"] u by fastforce
  show ?thesis
    using a b c by blast
qed

subsection \<open>Empty parameters\<close>

lemma filter_query_empty_q: "filter_query (Some []) loc tag = filter_query None loc tag"
  by (simp add: filter_query_def truthy_def)

lemma filter_query_empty_location: "filter_query q (Some []) tag = filter_query q None tag"
  by (simp add: filter_query_def truthy_def)

lemma filter_query_empty_tag: "filter_query q loc (Some []) = filter_query q loc None"
  by (simp add: filter_query_def truthy_def)

lemma applications_filter_empty: "applications_filter (Some []) = applications_filter None"
  by (simp add: applications_filter_def truthy_def)

lemma applications_filter_None: "applications_filter None = []"
  by (simp add: applications_filter_def truthy_def)

lemma query_matches_Nil: "query_matches w [] d"
  by (simp add: query_matches_def)

lemma list_applications_unfiltered:
  "fault d = None \<Longrightarrow>
   list_applications w (Some d) None limit
     = Inr (Items (map (convert_id w) (take (nat limit) (coll d ''application''))))"
  by (simp add: list_applications_def applications_filter_None get_documents_def
      query_matches_Nil)

text \<open>
  C10. In \<^verbatim>\<open>GET /jobs\<close> an empty string for \<^verbatim>\<open>q\<close>, \<^verbatim>\<open>location\<close> or \<^verbatim>\<open>tag\<close> gives
  the response that the absent parameter gives: no clause is added for it. In
  \<^verbatim>\<open>GET /applications\<close> an empty \<^verbatim>\<open>job_id\<close> builds the empty filter, and on a
  database that answers the result is the first \<^verbatim>\<open>limit\<close> applications, each with its
  identifier converted.
\<close>

theorem empty_string_is_absent:
  "list_jobs w db (Some []) loc tag limit = list_jobs w db None loc tag limit
   \<and> list_jobs w db q (Some []) tag limit = list_jobs w db q None tag limit
   \<and> list_jobs w db q loc (Some []) limit = list_jobs w db q loc None limit
   \<and> filter_query (Some []) (Some []) (Some []) = [(''is_active'', Cond (Eq (BBool True)))]
   \<and> applications_filter (Some []) = []
   \<and> list_applications w db (Some []) limit = list_applications w db None limit
   \<and> (fault d = None \<longrightarrow>
        list_applications w (Some d) (Some []) limit
          = Inr (Items (map (convert_id w) (take (nat limit) (coll d ''application'')))))"
proof -
  have jobs: "list_jobs w db (Some []) loc tag limit = list_jobs w db None loc tag limit"
    "list_jobs w db q (Some []) tag limit = list_jobs w db q None tag limit"
    "list_jobs w db q loc (Some []) limit = list_jobs w db q loc None limit"
    unfolding list_jobs_def filter_query_empty_q filter_query_empty_location
      filter_query_empty_tag by (rule refl)+
  have base: "filter_query (Some []) (Some []) (Some []) = [(''is_active'', Cond (Eq (BBool True)))]"
    by (simp add: filter_query_def truthy_def)
  have apps: "list_applications w db' (Some []) limit = list_applications w db' None limit" for db'
    unfolding list_applications_def applications_filter_empty by (rule refl)
  show ?thesis
    using jobs base apps [of db] apps [of "Some d"]
    by (simp add: applications_filter_empty applications_filter_None
        list_applications_unfiltered)
qed

theorem empty_string_is_absent_witness:
  "fault example_db = None
   \<and> list_applications example_world (Some example_db) (Some []) 100
       = Inr (Items [convert_id example_world application_ada])"
proof -
  have f: "fault example_db = None"
    by (simp add: example_db_def)
  have c: "coll example_db ''application'' = [application_ada]"
    by (simp add: example_db_def coll_def)
  have "list_applications example_world (Some example_db) (Some []) 100
          = Inr (Items (map (convert_id example_world)
                  (take (nat 100) (coll example_db ''application''))))"
    using f empty_string_is_absent [where w = example_world and d = example_db and limit = 100]
    by blast
  then show ?thesis
    using f c by simp
qed

subsection \<open>The job listing filter\<close>

lemma filter_query_matches:
  "query_matches w (filter_query q loc tag) j \<longleftrightarrow>
     eq_matches (BBool True) (map_of j ''is_active'')
     \<and> (truthy loc \<longrightarrow> cond_matches w (Regex (the loc) ''i'') (map_of j ''location''))
     \<and> (truthy tag \<longrightarrow> cond_matches w (In [BStr (the tag)]) (map_of j ''tags''))
     \<and> (truthy q \<longrightarrow> qvalue_matches w ''$or'' (Or (q_clauses (the q))) j)"
  by (auto simp: filter_query_def query_matches_def Let_def)

lemma filter_query_keys:
  "map_of (filter_query q loc tag) ''is_active'' = Some (Cond (Eq (BBool True)))"
  "truthy loc \<Longrightarrow> map_of (filter_query q loc tag) ''location'' = Some (Cond (Regex (the loc) ''i''))"
  "truthy tag \<Longrightarrow> map_of (filter_query q loc tag) ''tags'' = Some (Cond (In [BStr (the tag)]))"
  "truthy q \<Longrightarrow> map_of (filter_query q loc tag) ''$or'' = Some (Or (q_clauses (the q)))"
  by (simp_all add: filter_query_def Let_def update_conv')

lemma regex_search_literal:
  "\<not> list_ex regex_meta p \<Longrightarrow> regex_search w p ''i'' s \<longleftrightarrow> contains_ci p s"
  by (simp add: regex_search_def contains_ci_def search_i_sublist)

lemma q_clauses_matches:
  assumes "map_of j ''title'' = Some (BStr t)"
    and "map_of j ''company_name'' = Some (BStr c)"
    and "map_of j ''description'' = Some (BStr ds)"
    and "map_of j ''tags'' = Some (BArray (map BStr ts))"
  shows "qvalue_matches w ''$or'' (Or (q_clauses q)) j \<longleftrightarrow>
           regex_search w q ''i'' t \<or> regex_search w q ''i'' c \<or> regex_search w q ''i'' ds
           \<or> list_ex (regex_search w q ''i'') ts"
  using assms
  by (simp add: q_clauses_def clause_matches_def regex_matches_def list_ex_iff)

lemma in_tag_matches:
  "map_of j ''tags'' = Some (BArray (map BStr ts)) \<Longrightarrow>
   cond_matches w (In [BStr tag]) (map_of j ''tags'') \<longleftrightarrow> tag \<in> set ts"
  by (auto simp: eq_matches_def)

lemma convert_job_other:
  "k \<noteq> ''_id'' \<Longrightarrow> k \<noteq> ''posted_at'' \<Longrightarrow> map_of (convert_job w j) k = map_of j k"
  by (simp add: convert_job_def convert_posted_at_def convert_id_def update_conv'
      split: option.splits bson.splits)

lemma query_matches_convert_job:
  "query_matches w (filter_query q loc tag) (convert_job w j)
     = query_matches w (filter_query q loc tag) j"
  by (simp add: filter_query_matches q_clauses_def clause_matches_def convert_job_other)

lemma list_jobs_items:
  assumes "list_jobs w (Some d) q loc tag limit = Inr (Items items)" and "x \<in> set items"
  shows "\<exists>j \<in> set (coll d ''job''). query_matches w (filter_query q loc tag) j
           \<and> x = convert_job w j"
proof -
  from assms(1) have "items = map (convert_job w)
      (take (nat limit) (filter (query_matches w (filter_query q loc tag)) (coll d ''job'')))"
    by (auto simp: list_jobs_def get_documents_def split: option.splits)
  with assms(2) obtain j where
    j: "j \<in> set (take (nat limit) (filter (query_matches w (filter_query q loc tag)) (coll d ''job'')))"
    and x: "x = convert_job w j"
    by auto
  from j have "j \<in> set (filter (query_matches w (filter_query q loc tag)) (coll d ''job''))"
    by (rule in_set_takeD)
  with x show ?thesis by auto
qed

lemma returned_job_matches:
  assumes "list_jobs w (Some d) q loc tag limit = Inr (Items items)" and "x \<in> set items"
  shows "query_matches w (filter_query q loc tag) x"
  using list_jobs_items [OF assms] by (auto simp: query_matches_convert_job)

text \<open>
  C4. Whatever \<^verbatim>\<open>q\<close>, \<^verbatim>\<open>location\<close> and \<^verbatim>\<open>tag\<close> are, the filter of
  \<^verbatim>\<open>GET /jobs\<close> maps \<^verbatim>\<open>is_active\<close> to \<^verbatim>\<open>True\<close>, and every document of the
  response satisfies that constraint. Where the stored jobs hold a boolean in
  \<^verbatim>\<open>is_active\<close>, as the schema declares, every returned job has \<^verbatim>\<open>is_active\<close> equal
  to \<^verbatim>\<open>True\<close>.
\<close>

theorem listing_only_active:
  "map_of (filter_query q loc tag) ''is_active'' = Some (Cond (Eq (BBool True)))
   \<and> (list_jobs w (Some d) q loc tag limit = Inr (Items items) \<longrightarrow>
        list_all (\<lambda>x. eq_matches (BBool True) (map_of x ''is_active'')) items
        \<and> (list_all is_active_bool (coll d ''job'') \<longrightarrow>
             list_all (\<lambda>x. map_of x ''is_active'' = Some (BBool True)) items))"
proof -
  have key: "map_of (filter_query q loc tag) ''is_active'' = Some (Cond (Eq (BBool True)))"
    by (rule filter_query_keys(1))
  have all: "list_all (\<lambda>x. eq_matches (BBool True) (map_of x ''is_active'')) items"
    if r: "list_jobs w (Some d) q loc tag limit = Inr (Items items)"
    unfolding list_all_iff
  proof
    fix x assume "x \<in> set items"
    from returned_job_matches [OF r this]
    show "eq_matches (BBool True) (map_of x ''is_active'')"
      by (simp add: filter_query_matches)
  qed
  have typed: "list_all (\<lambda>x. map_of x ''is_active'' = Some (BBool True)) items"
    if r: "list_jobs w (Some d) q loc tag limit = Inr (Items items)"
      and t: "list_all is_active_bool (coll d ''job'')"
    unfolding list_all_iff
  proof
    fix x assume "x \<in> set items"
    from list_jobs_items [OF r this] obtain j where
      j: "j \<in> set (coll d ''job'')" "query_matches w (filter_query q loc tag) j"
      and x: "x = convert_job w j"
      by blast
    from t j(1) have "is_active_bool j"
      by (simp add: list_all_iff)
    moreover from j(2) have "eq_matches (BBool True) (map_of j ''is_active'')"
      by (simp add: filter_query_matches)
    ultimately have "map_of j ''is_active'' = Some (BBool True)"
      by (auto simp: is_active_bool_def eq_matches_def split: option.splits bson.splits)
    then show "map_of x ''is_active'' = Some (BBool True)"
      by (simp add: x convert_job_other)
  qed
  show ?thesis
    using key all typed by blast
qed

theorem listing_only_active_witness:
  "list_all is_active_bool (coll example_db ''job'')
   \<and> list_jobs example_world (Some example_db) None None None 50
       = Inr (Items [convert_job example_world job_engineer])
   \<and> list_all (\<lambda>x. map_of x ''is_active'' = Some (BBool True))
       [convert_job example_world job_engineer]"
proof -
  have t: "list_all is_active_bool (coll example_db ''job'')"
    by (simp add: example_db_def coll_def is_active_bool_def job_engineer_def job_closed_def)
  have r: "list_jobs example_world (Some example_db) None None None 50
       = Inr (Items [convert_job example_world job_engineer])"
    by (simp add: list_jobs_def get_documents_def filter_query_def truthy_def
        query_matches_def eq_matches_def example_db_def coll_def job_engineer_def
        job_closed_def)
  show ?thesis
    using t r listing_only_active [of None None None example_world example_db 50
        "[convert_job example_world job_engineer]"]
    by blast
qed

text \<open>
  C5. For a non-empty \<^verbatim>\<open>q\<close> without regular-expression metacharacters and a job whose
  title, company name and description are strings and whose tags are a list of strings:
  the filter holds the four-way \<^verbatim>\<open>$or\<close>; the job satisfies it iff its title, its
  company name, its description or one of its tags contains \<^verbatim>\<open>q\<close> as a
  case-insensitive substring; the whole filter is the conjunction of that clause with
  the filter built from the other parameters; and a job in the response satisfies both.
\<close>

theorem q_clause_semantics:
  assumes "q \<noteq> []" and "\<not> list_ex regex_meta q"
    and "map_of j ''title'' = Some (BStr t)"
    and "map_of j ''company_name'' = Some (BStr c)"
    and "map_of j ''description'' = Some (BStr ds)"
    and "map_of j ''tags'' = Some (BArray (map BStr ts))"
  shows "map_of (filter_query (Some q) loc tag) ''$or'' = Some (Or (q_clauses q))
    \<and> (qvalue_matches w ''$or'' (Or (q_clauses q)) j \<longleftrightarrow>
         contains_ci q t \<or> contains_ci q c \<or> contains_ci q ds \<or> list_ex (contains_ci q) ts)
    \<and> (query_matches w (filter_query (Some q) loc tag) j \<longleftrightarrow>
         query_matches w (filter_query None loc tag) j
         \<and> (contains_ci q t \<or> contains_ci q c \<or> contains_ci q ds \<or> list_ex (contains_ci q) ts))
    \<and> (list_jobs w (Some d) (Some q) loc tag limit = Inr (Items items) \<longrightarrow> j \<in> set items \<longrightarrow>
         (contains_ci q t \<or> contains_ci q c \<or> contains_ci q ds \<or> list_ex (contains_ci q) ts)
         \<and> query_matches w (filter_query None loc tag) j)"
proof -
  have tq: "truthy (Some q)"
    using assms(1) by (simp add: truthy_def)
  have lit: "regex_search w q ''i'' = contains_ci q"
    using assms(2) by (auto simp: regex_search_literal)
  have key: "map_of (filter_query (Some q) loc tag) ''$or'' = Some (Or (q_clauses q))"
    using filter_query_keys(4) [OF tq] by simp
  have cl: "qvalue_matches w ''$or'' (Or (q_clauses q)) j \<longleftrightarrow>
         contains_ci q t \<or> contains_ci q c \<or> contains_ci q ds \<or> list_ex (contains_ci q) ts"
    using q_clauses_matches [OF assms(3-6)] by (simp add: lit)
  have conj: "query_matches w (filter_query (Some q) loc tag) j \<longleftrightarrow>
         query_matches w (filter_query None loc tag) j
         \<and> qvalue_matches w ''$or'' (Or (q_clauses q)) j"
    using tq by (auto simp: filter_query_matches truthy_def)
  have ret: "query_matches w (filter_query (Some q) loc tag) j"
    if "list_jobs w (Some d) (Some q) loc tag limit = Inr (Items items)" "j \<in> set items"
    using that by (rule returned_job_matches)
  show ?thesis
    using key cl conj ret by blast
qed


lemma contains_ci_search: "contains_ci q s = search_i q s"
  by (simp add: contains_ci_def search_i_sublist)

theorem q_clause_semantics_witness:
  "''ENGINEER'' \<noteq> [] \<and> \<not> list_ex regex_meta ''ENGINEER''
   \<and> contains_ci ''ENGINEER'' ''Backend Engineer''
   \<and> query_matches example_world (filter_query None (Some ''berlin'') None) job_engineer
   \<and> query_matches example_world (filter_query (Some ''ENGINEER'') (Some ''berlin'') None)
        job_engineer
   \<and> \<not> query_matches example_world (filter_query (Some ''manager'') (Some ''berlin'') None)
        job_engineer"
proof -
  have m: "\<not> list_ex regex_meta ''ENGINEER''" "\<not> list_ex regex_meta ''manager''"
    by (simp_all add: regex_meta_def)
  have f: "map_of job_engineer ''title'' = Some (BStr ''Backend Engineer'')"
    "map_of job_engineer ''company_name'' = Some (BStr ''Acme'')"
    "map_of job_engineer ''description'' = Some (BStr ''Build and run services'')"
    "map_of job_engineer ''tags'' = Some (BArray (map BStr [''python'', ''Django'']))"
    by (simp_all add: job_engineer_def)
  have c: "contains_ci ''ENGINEER'' ''Backend Engineer''"
    by code_simp
  have n: "\<not> contains_ci ''manager'' ''Backend Engineer''"
    "\<not> contains_ci ''manager'' ''Acme''"
    "\<not> contains_ci ''manager'' ''Build and run services''"
    "\<not> list_ex (contains_ci ''manager'') [''python'', ''Django'']"
    by code_simp+
  have s: "search_i ''berlin'' ''Berlin, Germany''"
    by code_simp
  have b: "query_matches example_world (filter_query None (Some ''berlin'') None) job_engineer"
    using s
    by (simp add: filter_query_def truthy_def query_matches_def eq_matches_def
        regex_matches_def regex_search_def regex_meta_def job_engineer_def)
  have yes: "query_matches example_world (filter_query (Some ''ENGINEER'') (Some ''berlin'') None)
        job_engineer"
    using q_clause_semantics [OF _ m(1) f, where w = example_world and loc = "Some ''berlin''"
        and tag = None] b c
    by simp
  have no: "\<not> query_matches example_world (filter_query (Some ''manager'') (Some ''berlin'') None)
        job_engineer"
    using q_clause_semantics [OF _ m(2) f, where w = example_world and loc = "Some ''berlin''"
        and tag = None] n
    by simp
  show ?thesis
    using m(1) c b yes no by simp
qed

text \<open>
  C6. For a non-empty \<^verbatim>\<open>tag\<close> and a job whose tags are a list of strings: the filter
  maps \<^verbatim>\<open>tags\<close> to \<^verbatim>\<open>{"$in": [tag]}\<close>; the job satisfies that clause iff
  \<^verbatim>\<open>tag\<close> is an element of its tags (equality of whole strings, letter case
  included), whatever \<^verbatim>\<open>q\<close> is; and a job in the response has the tag.
\<close>

theorem tag_clause_exact:
  assumes "tag \<noteq> []" and "map_of j ''tags'' = Some (BArray (map BStr ts))"
  shows "map_of (filter_query q loc (Some tag)) ''tags'' = Some (Cond (In [BStr tag]))
    \<and> (cond_matches w (In [BStr tag]) (map_of j ''tags'') \<longleftrightarrow> tag \<in> set ts)
    \<and> (query_matches w (filter_query q loc (Some tag)) j \<longleftrightarrow>
         query_matches w (filter_query q loc None) j \<and> tag \<in> set ts)
    \<and> (list_jobs w (Some d) q loc (Some tag) limit = Inr (Items items) \<longrightarrow> j \<in> set items \<longrightarrow>
         tag \<in> set ts)"
proof -
  have tt: "truthy (Some tag)"
    using assms(1) by (simp add: truthy_def)
  have key: "map_of (filter_query q loc (Some tag)) ''tags'' = Some (Cond (In [BStr tag]))"
    using filter_query_keys(3) [OF tt] by simp
  have cl: "cond_matches w (In [BStr tag]) (map_of j ''tags'') \<longleftrightarrow> tag \<in> set ts"
    by (rule in_tag_matches [OF assms(2)])
  have conj: "query_matches w (filter_query q loc (Some tag)) j \<longleftrightarrow>
         query_matches w (filter_query q loc None) j
         \<and> cond_matches w (In [BStr tag]) (map_of j ''tags'')"
    using tt by (auto simp: filter_query_matches truthy_def)
  have ret: "query_matches w (filter_query q loc (Some tag)) j"
    if "list_jobs w (Some d) q loc (Some tag) limit = Inr (Items items)" "j \<in> set items"
    using that by (rule returned_job_matches)
  show ?thesis
    using key cl conj ret by blast
qed

theorem tag_clause_exact_witness:
  "''python'' \<noteq> []
   \<and> map_of job_engineer ''tags'' = Some (BArray (map BStr [''python'', ''Django'']))
   \<and> cond_matches example_world (In [BStr ''python'']) (map_of job_engineer ''tags'')
   \<and> \<not> cond_matches example_world (In [BStr ''Python'']) (map_of job_engineer ''tags'')
   \<and> \<not> cond_matches example_world (In [BStr ''pyth'']) (map_of job_engineer ''tags'')"
proof -
  have f: "map_of job_engineer ''tags'' = Some (BArray (map BStr [''python'', ''Django'']))"
    by (simp add: job_engineer_def)
  show ?thesis
    using f tag_clause_exact [OF _ f, where tag = "''python''" and w = example_world]
      tag_clause_exact [OF _ f, where tag = "''Python''" and w = example_world]
      tag_clause_exact [OF _ f, where tag = "''pyth''" and w = example_world]
    by simp
qed

text \<open>
  C7. For a non-empty \<^verbatim>\<open>location\<close> without regular-expression metacharacters and a
  job whose location is a string: the filter maps \<^verbatim>\<open>location\<close> to the regular
  expression with option \<^verbatim>\<open>i\<close>; the job satisfies that clause iff its location
  contains the parameter as a case-insensitive substring; and a job in the response
  does.
\<close>

theorem location_clause_semantics:
  assumes "loc \<noteq> []" and "\<not> list_ex regex_meta loc"
    and "map_of j ''location'' = Some (BStr l)"
  shows "map_of (filter_query q (Some loc) tag) ''location'' = Some (Cond (Regex loc ''i''))
    \<and> (cond_matches w (Regex loc ''i'') (map_of j ''location'') \<longleftrightarrow> contains_ci loc l)
    \<and> (query_matches w (filter_query q (Some loc) tag) j \<longleftrightarrow>
         query_matches w (filter_query q None tag) j \<and> contains_ci loc l)
    \<and> (list_jobs w (Some d) q (Some loc) tag limit = Inr (Items items) \<longrightarrow> j \<in> set items \<longrightarrow>
         contains_ci loc l)"
proof -
  have tl: "truthy (Some loc)"
    using assms(1) by (simp add: truthy_def)
  have key: "map_of (filter_query q (Some loc) tag) ''location'' = Some (Cond (Regex loc ''i''))"
    using filter_query_keys(2) [OF tl] by simp
  have cl: "cond_matches w (Regex loc ''i'') (map_of j ''location'') \<longleftrightarrow> contains_ci loc l"
    using assms(2,3) by (simp add: regex_matches_def regex_search_literal)
  have conj: "query_matches w (filter_query q (Some loc) tag) j \<longleftrightarrow>
         query_matches w (filter_query q None tag) j
         \<and> cond_matches w (Regex loc ''i'') (map_of j ''location'')"
    using tl by (auto simp: filter_query_matches truthy_def)
  have ret: "query_matches w (filter_query q (Some loc) tag) j"
    if "list_jobs w (Some d) q (Some loc) tag limit = Inr (Items items)" "j \<in> set items"
    using that by (rule returned_job_matches)
  show ?thesis
    using key cl conj ret by blast
qed

theorem location_clause_semantics_witness:
  "''berlin'' \<noteq> [] \<and> \<not> list_ex regex_meta ''berlin''
   \<and> map_of job_engineer ''location'' = Some (BStr ''Berlin, Germany'')
   \<and> cond_matches example_world (Regex ''berlin'' ''i'') (map_of job_engineer ''location'')
   \<and> \<not> cond_matches example_world (Regex ''berlin'' ''i'') (map_of job_closed ''location'')"
proof -
  have m: "\<not> list_ex regex_meta ''berlin''"
    by (simp add: regex_meta_def)
  have f: "map_of job_engineer ''location'' = Some (BStr ''Berlin, Germany'')"
    by (simp add: job_engineer_def)
  have g: "map_of job_closed ''location'' = Some (BStr ''Remote'')"
    by (simp add: job_closed_def)
  have c: "contains_ci ''berlin'' ''Berlin, Germany''" "\<not> contains_ci ''berlin'' ''Remote''"
    by code_simp+
  show ?thesis
    using m f c location_clause_semantics [OF _ m f, where w = example_world]
      location_clause_semantics [OF _ m g, where w = example_world]
    by simp
qed

subsection \<open>Documents in responses\<close>

lemma convert_id_id:
  "map_of x ''_id'' = Some v \<Longrightarrow> map_of (convert_id w x) ''_id'' = Some (BStr (py_str w v))"
  by (simp add: convert_id_def update_conv')

lemma convert_id_other: "k \<noteq> ''_id'' \<Longrightarrow> map_of (convert_id w x) k = map_of x k"
  by (simp add: convert_id_def update_conv')

lemma convert_posted_at_posted_at:
  "map_of (convert_posted_at x) ''posted_at''
     = (case map_of x ''posted_at'' of
          Some (BDatetime t) \<Rightarrow> Some (BStr (isoformat t))
        | v \<Rightarrow> v)"
  by (simp add: convert_posted_at_def update_conv' split: option.splits bson.splits)

lemma convert_posted_at_other:
  "k \<noteq> ''posted_at'' \<Longrightarrow> map_of (convert_posted_at x) k = map_of x k"
  by (simp add: convert_posted_at_def update_conv' split: option.splits bson.splits)

lemma posted_at_not_raw_convert: "posted_at_not_raw (convert_posted_at x)"
  by (simp add: posted_at_not_raw_def convert_posted_at_posted_at
      split: option.splits bson.splits)

lemma posted_at_not_raw_convert_job: "posted_at_not_raw (convert_job w x)"
  by (simp add: convert_job_def posted_at_not_raw_convert)

lemma id_is_str_convert_id: "has_id x \<Longrightarrow> id_is_str (convert_id w x)"
  by (auto simp: has_id_def id_is_str_def convert_id_id)

lemma id_is_str_convert_job: "has_id x \<Longrightarrow> id_is_str (convert_job w x)"
  using id_is_str_convert_id [of x w]
  by (simp add: convert_job_def id_is_str_def convert_posted_at_other)

lemma convert_id_fixed: "id_is_str x \<Longrightarrow> convert_id w x = x"
  by (auto simp: id_is_str_def convert_id_def update_triv split: option.splits bson.splits)

lemma convert_posted_at_fixed: "posted_at_not_raw x \<Longrightarrow> convert_posted_at x = x"
  by (auto simp: posted_at_not_raw_def convert_posted_at_def split: option.splits bson.splits)

lemma convert_id_idem: "has_id x \<Longrightarrow> convert_id w (convert_id w x) = convert_id w x"
  by (simp add: convert_id_fixed id_is_str_convert_id)

lemma convert_job_idem: "has_id x \<Longrightarrow> convert_job w (convert_job w x) = convert_job w x"
proof -
  assume h: "has_id x"
  have "convert_id w (convert_job w x) = convert_job w x"
    using h by (simp add: convert_id_fixed id_is_str_convert_job)
  moreover have "convert_posted_at (convert_job w x) = convert_job w x"
    by (simp add: convert_job_def convert_posted_at_fixed posted_at_not_raw_convert)
  ultimately show ?thesis
    by (simp add: convert_job_def)
qed

lemma get_documents_subset:
  "get_documents w d c f limit = Inr xs \<Longrightarrow> set xs \<subseteq> set (coll d c)"
  by (auto simp: get_documents_def split: option.splits dest: in_set_takeD)

lemma get_job_document:
  "get_job w (Some d) jid = Inr (Document x) \<Longrightarrow> id_is_str x \<and> posted_at_not_raw x"
  by (auto simp: get_job_def get_job_try_def id_is_str_def convert_posted_at_other
      update_conv' posted_at_not_raw_convert split: sum.splits option.splits if_splits)

lemma isoformat_example: "isoformat example_time = ''2024-05-01T12:30:00''"
  by code_simp

lemma coll_has_id:
  assumes "ids_assigned d" and "x \<in> set (coll d c)"
  shows "has_id x"
proof -
  from assms(2) have "\<exists>ds. map_of (collections d) c = Some ds \<and> x \<in> set ds"
    by (cases "map_of (collections d) c") (auto simp: coll_def)
  then obtain ds where m: "map_of (collections d) c = Some ds" and x: "x \<in> set ds"
    by blast
  from m have "(c, ds) \<in> set (collections d)"
    by (rule map_of_SomeD)
  with assms(1) have "list_all has_id ds"
    by (auto simp: ids_assigned_def list_all_iff)
  with x show ?thesis
    by (simp add: list_all_iff)
qed

lemma converted_items:
  assumes "ids_assigned d" and "get_documents w d c f limit = Inr xs"
  shows "list_all id_is_str (map (convert_id w) xs)"
    and "list_all (\<lambda>x. id_is_str x \<and> posted_at_not_raw x) (map (convert_job w) xs)"
proof -
  have h: "has_id x" if "x \<in> set xs" for x
    using get_documents_subset [OF assms(2)] that coll_has_id [OF assms(1)] by blast
  show "list_all id_is_str (map (convert_id w) xs)"
    using h by (simp add: list_all_iff id_is_str_convert_id)
  show "list_all (\<lambda>x. id_is_str x \<and> posted_at_not_raw x) (map (convert_job w) xs)"
    using h by (simp add: list_all_iff id_is_str_convert_job posted_at_not_raw_convert_job)
qed

text \<open>
  C3, as stated, fails: \<^verbatim>\<open>GET /applications\<close> returns the \<^verbatim>\<open>created_at\<close> of an
  application as the stored \<^verbatim>\<open>datetime\<close>, and \<^verbatim>\<open>GET /jobs\<close>, which turns
  \<^verbatim>\<open>posted_at\<close> into text, returns the \<^verbatim>\<open>updated_at\<close> of the same job as the
  stored \<^verbatim>\<open>datetime\<close>.
\<close>

theorem timestamps_left_as_stored:
  "list_applications example_world (Some stamped_db) None 100
     = Inr (Items [convert_id example_world stamped_application])
   \<and> map_of (convert_id example_world stamped_application) ''created_at''
       = Some (BDatetime example_time)
   \<and> list_jobs example_world (Some stamped_db) None None None 50
       = Inr (Items [convert_job example_world stamped_job])
   \<and> map_of (convert_job example_world stamped_job) ''posted_at''
       = Some (BStr ''2024-05-01T12:30:00'')
   \<and> map_of (convert_job example_world stamped_job) ''updated_at''
       = Some (BDatetime example_time)"
proof -
  have a: "list_applications example_world (Some stamped_db) None 100
     = Inr (Items [convert_id example_world stamped_application])"
    by (simp add: list_applications_def applications_filter_def truthy_def get_documents_def
        query_matches_def stamped_db_def coll_def)
  have j: "list_jobs example_world (Some stamped_db) None None None 50
       = Inr (Items [convert_job example_world stamped_job])"
    by (simp add: list_jobs_def get_documents_def filter_query_def truthy_def
        query_matches_def eq_matches_def stamped_db_def coll_def stamped_job_def
        job_engineer_def)
  have c: "map_of (convert_id example_world stamped_application) ''created_at''
       = Some (BDatetime example_time)"
    by (simp add: convert_id_other stamped_application_def application_ada_def)
  have p: "map_of (convert_job example_world stamped_job) ''posted_at''
       = Some (BStr ''2024-05-01T12:30:00'')"
    by (simp add: convert_job_def convert_posted_at_posted_at convert_id_other
        stamped_job_def job_engineer_def isoformat_example)
  have u: "map_of (convert_job example_world stamped_job) ''updated_at''
       = Some (BDatetime example_time)"
    by (simp add: convert_job_other stamped_job_def job_engineer_def)
  show ?thesis
    using a j c p u by simp
qed

lemma convert_job_id:
  "map_of x ''_id'' = Some v \<Longrightarrow> map_of (convert_job w x) ''_id'' = Some (BStr (py_str w v))"
  by (simp add: convert_job_def convert_posted_at_other convert_id_id)

lemma convert_job_posted_at:
  "map_of (convert_job w x) ''posted_at''
     = (case map_of x ''posted_at'' of
          Some (BDatetime t) \<Rightarrow> Some (BStr (isoformat t))
        | v \<Rightarrow> v)"
  by (simp add: convert_job_def convert_posted_at_posted_at convert_id_other)

lemma has_id_key: "has_id x \<Longrightarrow> ''_id'' \<in> fst ` set x"
  by (simp add: has_id_def map_of_eq_None_iff)

lemma convert_id_keys: "has_id x \<Longrightarrow> map fst (convert_id w x) = map fst x"
  using has_id_key [of x] by (simp add: convert_id_def update_keys)

lemma convert_posted_at_keys: "map fst (convert_posted_at x) = map fst x"
proof (cases "map_of x ''posted_at''")
  case None
  then show ?thesis
    by (simp add: convert_posted_at_def)
next
  case (Some v)
  then have "''posted_at'' \<in> set (map fst x)"
    using map_of_eq_None_iff [of x "''posted_at''"] by simp
  then show ?thesis
    using Some by (cases v) (simp_all add: convert_posted_at_def update_keys)
qed

lemma convert_job_keys: "has_id x \<Longrightarrow> map fst (convert_job w x) = map fst x"
  by (simp add: convert_job_def convert_posted_at_keys convert_id_keys)

lemma get_job_stored:
  assumes "get_job w (Some d) jid = Inr (Document x)"
  shows "\<exists>oid j. ObjectId jid = Inr oid
           \<and> find_one w d ''job'' [(''_id'', Cond (Eq (BObjectId oid)))] = Inr (Some j)
           \<and> j \<in> set (coll d ''job'') \<and> x = convert_job w j"
proof -
  from assms obtain oid j v where o: "ObjectId jid = Inr oid"
    and f: "find_one w d ''job'' [(''_id'', Cond (Eq (BObjectId oid)))] = Inr (Some j)"
    and v: "map_of j ''_id'' = Some v"
    and x: "x = convert_posted_at (AList.update ''_id'' (BStr (py_str w v)) j)"
    by (auto simp: get_job_def get_job_try_def split: sum.splits option.splits if_splits)
  from f have "j \<in> set (coll d ''job'')"
    by (auto simp: find_one_def find_Some_iff split: option.splits)
  moreover from v x have "x = convert_job w j"
    by (simp add: convert_job_def convert_id_def)
  ultimately show ?thesis
    using o f by blast
qed

lemma found_have_ids:
  assumes "ids_assigned d" and "get_documents w d c f limit = Inr xs"
  shows "list_all has_id xs"
  using get_documents_subset [OF assms(2)] coll_has_id [OF assms(1)]
  by (auto simp: list_all_iff)

text \<open>
  C3, amended. On a database whose stored documents carry an \<^verbatim>\<open>_id\<close>:
  \<^item> each list response is the documents the store found, each converted once, by
    \<open>convert_job\<close> in the jobs list and by \<open>convert_id\<close> in the applications and
    companies lists; the job detail is \<open>convert_job\<close> of the stored job that the lookup
    by identifier found;
  \<^item> a converted document holds under \<^verbatim>\<open>_id\<close> the string \<^verbatim>\<open>str\<close> of the stored
    identifier, which for an \<^verbatim>\<open>ObjectId\<close> is its canonical text;
  \<^item> \<open>convert_job\<close> replaces a \<^verbatim>\<open>datetime\<close> held under \<^verbatim>\<open>posted_at\<close> by its
    \<^verbatim>\<open>isoformat()\<close> text and leaves any other value of that field as it is;
  \<^item> every other field is returned as stored, and the keys and their order are kept;
  \<^item> both conversions are idempotent on a document that has an \<^verbatim>\<open>_id\<close>.
\<close>

theorem returned_documents_converted:
  assumes "ids_assigned d"
  shows "(list_jobs w (Some d) q loc tag limit = Inr (Items items) \<longrightarrow>
            (\<exists>found. get_documents w d ''job'' (filter_query q loc tag) limit = Inr found
               \<and> list_all has_id found \<and> items = map (convert_job w) found)
            \<and> list_all (\<lambda>x. id_is_str x \<and> posted_at_not_raw x) items)
    \<and> (get_job w (Some d) jid = Inr (Document x) \<longrightarrow>
            (\<exists>oid j. ObjectId jid = Inr oid
               \<and> find_one w d ''job'' [(''_id'', Cond (Eq (BObjectId oid)))] = Inr (Some j)
               \<and> j \<in> set (coll d ''job'') \<and> x = convert_job w j)
            \<and> id_is_str x \<and> posted_at_not_raw x)
    \<and> (list_applications w (Some d) jid' limit = Inr (Items apps) \<longrightarrow>
            (\<exists>found. get_documents w d ''application'' (applications_filter jid') limit
                 = Inr found
               \<and> list_all has_id found \<and> apps = map (convert_id w) found)
            \<and> list_all id_is_str apps)
    \<and> (list_companies w (Some d) limit = Inr (Items comps) \<longrightarrow>
            (\<exists>found. get_documents w d ''company'' [] limit = Inr found
               \<and> list_all has_id found \<and> comps = map (convert_id w) found)
            \<and> list_all id_is_str comps)
    \<and> (has_id y \<longrightarrow>
          convert_job w (convert_job w y) = convert_job w y
          \<and> convert_id w (convert_id w y) = convert_id w y
          \<and> map fst (convert_job w y) = map fst y
          \<and> map fst (convert_id w y) = map fst y)
    \<and> (map_of y ''_id'' = Some v \<longrightarrow>
          map_of (convert_id w y) ''_id'' = Some (BStr (py_str w v))
          \<and> map_of (convert_job w y) ''_id'' = Some (BStr (py_str w v)))
    \<and> py_str w (BObjectId (Oid h)) = h
    \<and> map_of (convert_job w y) ''posted_at''
         = (case map_of y ''posted_at'' of
              Some (BDatetime t) \<Rightarrow> Some (BStr (isoformat t))
            | u \<Rightarrow> u)
    \<and> (k \<noteq> ''_id'' \<longrightarrow> map_of (convert_id w y) k = map_of y k)
    \<and> (k \<noteq> ''_id'' \<longrightarrow> k \<noteq> ''posted_at'' \<longrightarrow> map_of (convert_job w y) k = map_of y k)"
proof -
  have jobs: "(\<exists>found. get_documents w d ''job'' (filter_query q loc tag) limit = Inr found
               \<and> list_all has_id found \<and> items = map (convert_job w) found)
      \<and> list_all (\<lambda>x. id_is_str x \<and> posted_at_not_raw x) items"
    if r: "list_jobs w (Some d) q loc tag limit = Inr (Items items)"
  proof -
    from r obtain found where
      g: "get_documents w d ''job'' (filter_query q loc tag) limit = Inr found"
      and i: "items = map (convert_job w) found"
      by (auto simp: list_jobs_def split: sum.splits)
    show ?thesis
      using g i found_have_ids [OF assms g] converted_items(2) [OF assms g] by blast
  qed
  have apps: "(\<exists>found. get_documents w d ''application'' (applications_filter jid') limit
                 = Inr found
               \<and> list_all has_id found \<and> apps = map (convert_id w) found)
      \<and> list_all id_is_str apps"
    if r: "list_applications w (Some d) jid' limit = Inr (Items apps)"
  proof -
    from r obtain found where
      g: "get_documents w d ''application'' (applications_filter jid') limit = Inr found"
      and i: "apps = map (convert_id w) found"
      by (auto simp: list_applications_def split: sum.splits)
    show ?thesis
      using g i found_have_ids [OF assms g] converted_items(1) [OF assms g] by blast
  qed
  have comps: "(\<exists>found. get_documents w d ''company'' [] limit = Inr found
               \<and> list_all has_id found \<and> comps = map (convert_id w) found)
      \<and> list_all id_is_str comps"
    if r: "list_companies w (Some d) limit = Inr (Items comps)"
  proof -
    from r obtain found where
      g: "get_documents w d ''company'' [] limit = Inr found"
      and i: "comps = map (convert_id w) found"
      by (auto simp: list_companies_def split: sum.splits)
    show ?thesis
      using g i found_have_ids [OF assms g] converted_items(1) [OF assms g] by blast
  qed
  have detail: "(\<exists>oid j. ObjectId jid = Inr oid
               \<and> find_one w d ''job'' [(''_id'', Cond (Eq (BObjectId oid)))] = Inr (Some j)
               \<and> j \<in> set (coll d ''job'') \<and> x = convert_job w j)
            \<and> id_is_str x \<and> posted_at_not_raw x"
    if r: "get_job w (Some d) jid = Inr (Document x)"
    using get_job_stored [OF r] get_job_document [OF r] by blast
  have idem: "convert_job w (convert_job w y) = convert_job w y
          \<and> convert_id w (convert_id w y) = convert_id w y
          \<and> map fst (convert_job w y) = map fst y
          \<and> map fst (convert_id w y) = map fst y"
    if "has_id y"
    using that by (simp add: convert_job_idem convert_id_idem convert_job_keys convert_id_keys)
  have ident: "map_of (convert_id w y) ''_id'' = Some (BStr (py_str w v))
          \<and> map_of (convert_job w y) ''_id'' = Some (BStr (py_str w v))"
    if "map_of y ''_id'' = Some v"
    using that by (simp add: convert_id_id convert_job_id)
  have str: "py_str w (BObjectId (Oid h)) = h"
    by simp
  have posted: "map_of (convert_job w y) ''posted_at''
         = (case map_of y ''posted_at'' of
              Some (BDatetime t) \<Rightarrow> Some (BStr (isoformat t))
            | u \<Rightarrow> u)"
    by (rule convert_job_posted_at)
  have other: "k \<noteq> ''_id'' \<longrightarrow> map_of (convert_id w y) k = map_of y k"
    "k \<noteq> ''_id'' \<longrightarrow> k \<noteq> ''posted_at'' \<longrightarrow> map_of (convert_job w y) k = map_of y k"
    by (simp_all add: convert_id_other convert_job_other)
  from jobs detail apps comps idem ident str posted other show ?thesis
    by (intro conjI impI) (blast | assumption)+
qed

theorem returned_documents_converted_witness:
  "ids_assigned example_db
   \<and> list_jobs example_world (Some example_db) None None None 50
       = Inr (Items [convert_job example_world job_engineer])
   \<and> get_job example_world (Some example_db) ''000000000000000000000001''
       = Inr (Document (convert_job example_world job_engineer))
   \<and> id_is_str (convert_job example_world job_engineer)
   \<and> posted_at_not_raw (convert_job example_world job_engineer)
   \<and> map_of (convert_job example_world job_engineer) ''_id''
       = Some (BStr ''000000000000000000000001'')
   \<and> map_of (convert_job example_world job_engineer) ''posted_at''
       = Some (BStr ''2024-05-01T12:30:00'')
   \<and> map_of (convert_job example_world job_engineer) ''title''
       = Some (BStr ''Backend Engineer'')"
proof -
  have a: "ids_assigned example_db"
    by (simp add: ids_assigned_def has_id_def example_db_def job_engineer_def job_closed_def
        application_ada_def)
  have r: "list_jobs example_world (Some example_db) None None None 50
       = Inr (Items [convert_job example_world job_engineer])"
    by (simp add: list_jobs_def get_documents_def filter_query_def truthy_def
        query_matches_def eq_matches_def example_db_def coll_def job_engineer_def
        job_closed_def)
  have o: "ObjectId ''000000000000000000000001'' = Inr (Oid ''000000000000000000000001'')"
    by (simp add: text_defs)
  have f: "find_one example_world example_db ''job''
       [(''_id'', Cond (Eq (BObjectId (Oid ''000000000000000000000001''))))]
       = Inr (Some job_engineer)"
    by (simp add: store_defs example_defs)
  have e: "map_of job_engineer ''_id'' = Some (BObjectId (Oid ''000000000000000000000001''))"
    "map_of job_engineer ''posted_at'' = Some (BDatetime example_time)"
    "map_of job_engineer ''title'' = Some (BStr ''Backend Engineer'')"
    by (simp_all add: job_engineer_def)
  have g: "get_job example_world (Some example_db) ''000000000000000000000001''
       = Inr (Document (convert_job example_world job_engineer))"
    using o f e(1)
    by (simp add: get_job_def get_job_try_def convert_job_def convert_id_def job_engineer_def)
  note t = returned_documents_converted [OF a, where w = example_world and q = None
      and loc = None and tag = None and limit = 50
      and items = "[convert_job example_world job_engineer]"
      and y = job_engineer and v = "BObjectId (Oid ''000000000000000000000001'')"
      and h = "''000000000000000000000001''" and k = "''title''"]
  from t r have s: "id_is_str (convert_job example_world job_engineer)
      \<and> posted_at_not_raw (convert_job example_world job_engineer)"
    by simp
  from t e(1) have i: "map_of (convert_job example_world job_engineer) ''_id''
       = Some (BStr ''000000000000000000000001'')"
    by simp
  from t e(2) have p: "map_of (convert_job example_world job_engineer) ''posted_at''
       = Some (BStr ''2024-05-01T12:30:00'')"
    by (simp add: isoformat_example)
  from t e(3) have n: "map_of (convert_job example_world job_engineer) ''title''
       = Some (BStr ''Backend Engineer'')"
    by simp
  from a r g s i p n show ?thesis
    by simp
qed

subsection \<open>What the handlers store\<close>

text \<open>
  The two conditions on stored documents used above hold of what the handlers write:
  an insert keeps every document with an \<^verbatim>\<open>_id\<close>, and \<open>create_job\<close>, the one
  writer of the job collection, stores a boolean under \<^verbatim>\<open>is_active\<close>.
\<close>

lemma set_update_subset: "set (AList.update k v al) \<subseteq> insert (k, v) (set al)"
  by (induction al) auto

lemma coll_update_same: "map_of (AList.update c ds cs) c = Some ds"
  by (simp add: update_conv')

lemma create_document_stored:
  assumes "create_document d c data = Inr (i, d')"
  shows "coll d' c = coll d c @ [AList.update ''_id'' (BObjectId (Oid i)) data]"
    and "c' \<noteq> c \<Longrightarrow> coll d' c' = coll d c'"
  using assms
  by (auto simp: create_document_def coll_def Let_def update_conv' split: option.splits)

lemma create_document_keeps_ids:
  assumes "ids_assigned d" and "create_document d c data = Inr (i, d')"
  shows "ids_assigned d'"
proof -
  let ?stored = "AList.update ''_id'' (BObjectId (Oid i)) data"
  have new: "list_all has_id (coll d c @ [?stored])"
    using assms(1) coll_has_id [OF assms(1), of _ c]
    by (simp add: list_all_iff has_id_def update_conv')
  have cs: "collections d' = AList.update c (coll d c @ [?stored]) (collections d)"
    using assms(2)
    by (auto simp: create_document_def Let_def split: option.splits)
  show ?thesis
    unfolding ids_assigned_def cs list_all_iff
  proof
    fix p assume "p \<in> set (AList.update c (coll d c @ [?stored]) (collections d))"
    then have "p = (c, coll d c @ [?stored]) \<or> p \<in> set (collections d)"
      using set_update_subset by fastforce
    then show "case p of (c, ds) \<Rightarrow> \<forall>x\<in>set ds. has_id x"
      using new assms(1) by (auto simp: ids_assigned_def list_all_iff)
  qed
qed

lemma create_job_keeps_is_active_bool:
  assumes "create_job w (Some d) job = (Inr r, Some d')"
    and "list_all is_active_bool (coll d ''job'')"
  shows "list_all is_active_bool (coll d' ''job'')"
proof -
  let ?data0 = "Job_model_dump job"
  let ?data = "if \<not> py_bool (dict_get ?data0 ''posted_at'')
               then AList.update ''posted_at'' (BDatetime (utcnow w)) ?data0 else ?data0"
  from assms(1) obtain i where c: "create_document d ''job'' ?data = Inr (i, d')"
    by (auto simp: create_job_def Let_def split: sum.splits prod.splits)
  have "map_of ?data ''is_active'' = Some (BBool (is_active job))"
    by (simp add: Job_model_dump_def update_conv')
  then have "is_active_bool (AList.update ''_id'' (BObjectId (Oid i)) ?data)"
    by (simp add: is_active_bool_def update_conv')
  with assms(2) show ?thesis
    by (simp add: create_document_stored(1) [OF c])
qed

end
